theory Spec2Isabelle
  imports Main
begin

section \<open>JavaScript strings and values\<close>

text \<open>
  The string operations that \<^verbatim>\<open>src/module/internal/find-path.js\<close> applies, with the
  behaviour ECMAScript gives them. A string is a list of characters.
\<close>

text \<open>\<^verbatim>\<open>s.charCodeAt(i)\<close>: NaN (here \<open>None\<close>) outside the string.\<close>

definition charCodeAt :: "string \<Rightarrow> int \<Rightarrow> char option" where
  "charCodeAt s i = (if 0 \<le> i \<and> i < int (length s) then Some (s ! nat i) else None)"

text \<open>
  \<^verbatim>\<open>s.substring(indexStart, indexEnd)\<close>: both indices are clamped to the string and
  swapped when the first is the larger one.
\<close>

definition substring :: "string \<Rightarrow> int \<Rightarrow> int \<Rightarrow> string" where
  "substring s indexStart indexEnd =
     (let len = int (length s);
          a = min (max indexStart 0) len;
          b = min (max indexEnd 0) len
      in take (nat (max a b - min a b)) (drop (nat (min a b)) s))"

text \<open>\<^verbatim>\<open>s.substring(indexStart)\<close>: to the end of the string.\<close>

definition substring_from :: "string \<Rightarrow> int \<Rightarrow> string" where
  "substring_from s indexStart = substring s indexStart (int (length s))"

definition startsWith :: "string \<Rightarrow> string \<Rightarrow> bool" where
  "startsWith s p = (take (length p) s = p)"

definition endsWith :: "string \<Rightarrow> string \<Rightarrow> bool" where
  "endsWith s p = (length p \<le> length s \<and> drop (length s - length p) s = p)"

text \<open>\<^verbatim>\<open>s.split(c)\<close> for a separator of one character: never the empty list.\<close>

fun split_on :: "char \<Rightarrow> string \<Rightarrow> string list" where
  "split_on c [] = [[]]"
| "split_on c (x # xs) =
     (if x = c then [] # split_on c xs
      else (case split_on c xs of
              [] \<Rightarrow> [[x]]
            | y # ys \<Rightarrow> (x # y) # ys))"

text \<open>\<^verbatim>\<open>a.join()\<close>: the elements separated by commas.\<close>

fun array_join :: "string list \<Rightarrow> string" where
  "array_join [] = ''''"
| "array_join [x] = x"
| "array_join (x # y # ys) = x @ '','' @ array_join (y # ys)"

text \<open>\<^verbatim>\<open>s.indexOf(c)\<close> for one character.\<close>

fun indexOf :: "string \<Rightarrow> char \<Rightarrow> nat option" where
  "indexOf [] c = None"
| "indexOf (x # xs) c =
     (if x = c then Some 0 else map_option Suc (indexOf xs c))"

text \<open>
  The replacement text of \<^verbatim>\<open>String.prototype.replace\<close> when the pattern is a string
  (ECMAScript's GetSubstitution with no captures): \<^verbatim>\<open>$$\<close> is a dollar sign,
  \<^verbatim>\<open>$&\<close> the matched text, \<^verbatim>\<open>$`\<close> the text before the match, \<^verbatim>\<open>$'\<close> the text after
  it; every other character stands for itself.
\<close>

fun getSubstitution :: "string \<Rightarrow> string \<Rightarrow> nat \<Rightarrow> string \<Rightarrow> string" where
  "getSubstitution matched str position [] = []"
| "getSubstitution matched str position [c] = [c]"
| "getSubstitution matched str position (c # d # rest) =
     (if c = CHR ''$'' then
        (if d = CHR ''$'' then CHR ''$'' # getSubstitution matched str position rest
         else if d = CHR ''&'' then matched @ getSubstitution matched str position rest
         else if d = CHR 0x60 then take position str @ getSubstitution matched str position rest
         else if d = CHR 0x27 then
           drop (position + length matched) str @ getSubstitution matched str position rest
         else c # getSubstitution matched str position (d # rest))
      else c # getSubstitution matched str position (d # rest))"

text \<open>\<^verbatim>\<open>s.replace(c, replaceValue)\<close> for a pattern of one character: the first match only.\<close>

definition replace :: "string \<Rightarrow> char \<Rightarrow> string \<Rightarrow> string" where
  "replace s c replaceValue =
     (case indexOf s c of
        None \<Rightarrow> s
      | Some position \<Rightarrow>
          take position s @ getSubstitution [c] s position replaceValue @ drop (Suc position) s)"

text \<open>
  A parsed JSON value. An object is the list of its own properties in the order of
  \<^verbatim>\<open>Object.keys\<close>, each key once; reading a property that is not there gives
  \<^verbatim>\<open>undefined\<close>, here \<open>None\<close> (the names that the code reads are not those of
  \<^verbatim>\<open>Object.prototype\<close>). Numbers are integers: the code only tests them for
  truthiness.
\<close>

datatype json =
    JNull
  | JBool bool
  | JNum int
  | JStr string
  | JArr "json list"
  | JObj "(string \<times> json) list"

text \<open>The truthiness of a property read, \<^verbatim>\<open>if (exports.require)\<close>.\<close>

fun truthy :: "json option \<Rightarrow> bool" where
  "truthy None = False"
| "truthy (Some JNull) = False"
| "truthy (Some (JBool b)) = b"
| "truthy (Some (JNum n)) = (n \<noteq> 0)"
| "truthy (Some (JStr s)) = (s \<noteq> '''')"
| "truthy (Some (JArr xs)) = True"
| "truthy (Some (JObj kvs)) = True"

section \<open>The collaborators of the resolver\<close>

text \<open>
  \<^verbatim>\<open>find-path.js\<close> imports its path functions, its filesystem probes, the reader of
  package descriptors and the process flags from modules that are not part of the
  sources at hand. They are parameters of the model: every theorem below holds for
  all of them.
\<close>

datatype stats = Stats (isFile: bool)

record env =
  sep :: string
  isSep :: "char \<Rightarrow> bool"
  isAbsolute :: "string \<Rightarrow> bool"
  resolve :: "string \<Rightarrow> string \<Rightarrow> string"
  join :: "string \<Rightarrow> string \<Rightarrow> string"
  dirname :: "string \<Rightarrow> string"
  basename :: "string \<Rightarrow> string"
  isExtJS :: "string \<Rightarrow> bool"
  isExtMJS :: "string \<Rightarrow> bool"
  statFast :: "string \<Rightarrow> int"
  statSync :: "string \<Rightarrow> stats option"
  realpath :: "string \<Rightarrow> string"
  existsSync :: "string \<Rightarrow> bool"
  readPackage :: "string \<Rightarrow> string list \<Rightarrow> (string \<times> json) list option"
  extensions :: "string list"
  TINK :: bool
  YARN_PNP :: bool
  preserveSymlinks :: bool
  preserveSymlinksMain :: bool
  pendingDeprecation :: bool

definition preserveAllSymlinks :: "env \<Rightarrow> bool" where
  "preserveAllSymlinks E = (TINK E \<or> YARN_PNP E)"

definition resolveSymlinks :: "env \<Rightarrow> bool" where
  "resolveSymlinks E = (\<not> preserveAllSymlinks E \<and> \<not> preserveSymlinks E)"

definition resolveSymlinksMain :: "env \<Rightarrow> bool" where
  "resolveSymlinksMain E = (\<not> preserveAllSymlinks E \<and> \<not> preserveSymlinksMain E)"

section \<open>Probing files and extensions\<close>

definition tryFilename :: "env \<Rightarrow> string \<Rightarrow> bool \<Rightarrow> string" where
  "tryFilename E filename isMain =
     (let rc = (if isExtJS E filename \<or> isExtMJS E filename
                then (case statSync E filename of
                        None \<Rightarrow> - 1
                      | Some stat \<Rightarrow> if isFile stat then 0 else 1)
                else statFast E filename)
      in if rc \<noteq> 0 then ''''
         else let useRealpath = (if isMain then resolveSymlinksMain E else resolveSymlinks E)
              in if useRealpath then realpath E filename else filename)"

fun tryExtensions :: "env \<Rightarrow> string \<Rightarrow> string list \<Rightarrow> bool \<Rightarrow> string" where
  "tryExtensions E thePath [] isMain = ''''"
| "tryExtensions E thePath (ext # exts) isMain =
     (let foundPath = tryFilename E (thePath @ ext) isMain
      in if foundPath \<noteq> '''' then foundPath
         else tryExtensions E thePath exts isMain)"

definition tryField :: "env \<Rightarrow> string \<Rightarrow> json option \<Rightarrow> string list \<Rightarrow> bool \<Rightarrow> string" where
  "tryField E dirPath fieldPath exts isMain =
     (case fieldPath of
        Some (JStr s) \<Rightarrow>
          (let thePath = resolve E dirPath s;
               foundPath = tryFilename E thePath isMain;
               foundPath = (if foundPath = '''' then tryExtensions E thePath exts isMain
                            else foundPath);
               foundPath = (if foundPath = ''''
                            then tryExtensions E (thePath @ sep E @ ''index'') exts isMain
                            else foundPath)
           in foundPath)
      | _ \<Rightarrow> '''')"

section \<open>Resolving the exports declaration\<close>

text \<open>
  What the resolver throws: \<^verbatim>\<open>MAIN_NOT_FOUND(request, jsonPath)\<close>, and the TypeError
  of JavaScript itself (a property read on \<^verbatim>\<open>null\<close>, a path function applied to a value
  that is not a string).
\<close>

datatype error = MAIN_NOT_FOUND string string | TypeError

text \<open>
  The value of \<^verbatim>\<open>foundPath\<close>: a string (the empty string says "not found"), or the
  \<^verbatim>\<open>null\<close> that \<^verbatim>\<open>resolveExports\<close> returns.
\<close>

datatype found = Str string | Null

text \<open>
  \<^verbatim>\<open>exports.find((exportPath) => existsSync(join(packagePath, exportPath)))\<close>:
  \<^verbatim>\<open>path.join\<close> throws a TypeError on an element that is not a string.
\<close>

fun find_export :: "env \<Rightarrow> string \<Rightarrow> json list \<Rightarrow> error + string option" where
  "find_export E packagePath [] = Inr None"
| "find_export E packagePath (JStr exportPath # rest) =
     (if existsSync E (join E packagePath exportPath) then Inr (Some exportPath)
      else find_export E packagePath rest)"
| "find_export E packagePath (_ # rest) = Inl TypeError"

definition wellKnownConditions :: "string list" where
  "wellKnownConditions = [''import'', ''require'', ''node'', ''default'', ''.'']"

text \<open>
  An entry of \<^verbatim>\<open>conditions\<close>: \<^verbatim>\<open>{ endsWith, exports: exports[condition], startsWith }\<close>,
  where \<^verbatim>\<open>[startsWith, endsWith] = condition.split("*")\<close>; \<^verbatim>\<open>endsWith\<close> is
  \<^verbatim>\<open>undefined\<close> for a key without a star.
\<close>

datatype condition =
  Condition (cond_startsWith: string) (cond_endsWith: "string option") (cond_exports: json)

definition toCondition :: "string \<times> json \<Rightarrow> condition" where
  "toCondition kv =
     (case split_on CHR ''*'' (fst kv) of
        [] \<Rightarrow> Condition [] None (snd kv)
      | [a] \<Rightarrow> Condition a None (snd kv)
      | a # b # _ \<Rightarrow> Condition a (Some b) (snd kv))"

definition conditions_of :: "(string \<times> json) list \<Rightarrow> condition list" where
  "conditions_of kvs =
     map toCondition (filter (\<lambda>kv. fst kv \<notin> set wellKnownConditions) kvs)"

text \<open>
  The test of \<^verbatim>\<open>conditions.find\<close>:
  \<^verbatim>\<open>normalizedSubpath.startsWith(startsWith) && (!endsWith || normalizedSubpath.endsWith(endsWith))\<close>.
\<close>

definition matchesCondition :: "string \<Rightarrow> condition \<Rightarrow> bool" where
  "matchesCondition normalizedSubpath c =
     (startsWith normalizedSubpath (cond_startsWith c) \<and>
      (case cond_endsWith c of
         None \<Rightarrow> True
       | Some e \<Rightarrow> e = '''' \<or> endsWith normalizedSubpath e))"

text \<open>
  The guard \<^verbatim>\<open>matchedCondition.endsWith && typeof matchedCondition.exports === "string"\<close>:
  the truthiness of a string that may be \<^verbatim>\<open>undefined\<close>, and the test for a string with
  the string that it then is.
\<close>

definition truthy_string :: "string option \<Rightarrow> bool" where
  "truthy_string s = (case s of None \<Rightarrow> False | Some x \<Rightarrow> x \<noteq> '''')"

fun isString :: "json \<Rightarrow> bool" where
  "isString (JStr s) = True"
| "isString _ = False"

fun the_string :: "json \<Rightarrow> string" where
  "the_string (JStr s) = s"
| "the_string _ = ''''"

function resolveExports :: "env \<Rightarrow> json \<Rightarrow> string \<Rightarrow> string \<Rightarrow> error + found" where
  "resolveExports E (JStr exports) packagePath subpath =
     Inr (Str (join E packagePath exports))"
| "resolveExports E (JArr exports) packagePath subpath =
     (case find_export E packagePath exports of
        Inl e \<Rightarrow> Inl e
      | Inr None \<Rightarrow> Inr Null
      | Inr (Some availableExport) \<Rightarrow>
          if availableExport \<noteq> '''' then Inr (Str (join E packagePath availableExport))
          else Inr Null)"
| "resolveExports E JNull packagePath subpath = Inl TypeError"
| "resolveExports E (JBool b) packagePath subpath = Inr Null"
| "resolveExports E (JNum n) packagePath subpath = Inr Null"
| "resolveExports E (JObj exports) packagePath subpath =
     (if truthy (map_of exports ''require'')
      then resolveExports E (the (map_of exports ''require'')) packagePath subpath
      else if truthy (map_of exports ''node'')
      then resolveExports E (the (map_of exports ''node'')) packagePath subpath
      else if truthy (map_of exports ''default'')
      then resolveExports E (the (map_of exports ''default'')) packagePath subpath
      else if truthy (map_of exports ''.'') \<and> subpath = ''''
      then resolveExports E (the (map_of exports ''.'')) packagePath subpath
      else if subpath \<noteq> '''' then
        (let normalizedSubpath = ''./'' @ subpath
         in case List.find (matchesCondition normalizedSubpath) (conditions_of exports) of
              None \<Rightarrow> Inr Null
            | Some matchedCondition \<Rightarrow>
                if truthy_string (cond_endsWith matchedCondition) \<and>
                   isString (cond_exports matchedCondition)
                then
                  (let pathToReplace =
                         substring normalizedSubpath
                           (int (length (cond_startsWith matchedCondition)))
                           (int (length normalizedSubpath) -
                            int (length (the (cond_endsWith matchedCondition))))
                   in Inr (Str (join E packagePath
                                  (replace (the_string (cond_exports matchedCondition)) CHR ''*''
                                     pathToReplace))))
                else resolveExports E (cond_exports matchedCondition) packagePath subpath)
      else Inr Null)"
  by pat_completeness auto
termination
proof -
  have lookup: "size v < Suc (size_list (size_prod (\<lambda>_. 0) size) kvs)"
    if "map_of kvs k = Some v" for kvs :: "(string \<times> json) list" and k v
    using that by (induction kvs) (auto split: if_splits)
  have present: "\<exists>v. x = Some v" if "truthy x" for x
    using that by (cases x) auto
  have matched: "size (cond_exports c) < Suc (size_list (size_prod (\<lambda>_. 0) size) kvs)"
    if "List.find P (conditions_of kvs) = Some c" for P kvs c
  proof -
    from that have "c \<in> set (conditions_of kvs)"
      by (auto simp: find_Some_iff)
    then obtain kv where kv: "kv \<in> set kvs" and c: "c = toCondition kv"
      by (auto simp: conditions_of_def)
    have "cond_exports (toCondition kv) = snd kv"
      by (simp add: toCondition_def split: list.splits)
    moreover have "size (snd kv) < Suc (size_list (size_prod (\<lambda>_. 0) size) kvs)"
      using kv by (induction kvs) auto
    ultimately show ?thesis using c by simp
  qed
  show ?thesis
    by (relation "measure (\<lambda>(E, exports, packagePath, subpath). size exports)")
      (auto dest!: present dest: lookup matched)
qed

section \<open>Resolving a package directory\<close>

text \<open>
  Modelled from the spec: \<^verbatim>\<open>path/is-ext-mjs.js\<close> is not among the sources, and
  \<^verbatim>\<open>tryPackage\<close> applies \<^verbatim>\<open>isExtMJS\<close> to the value that \<^verbatim>\<open>resolveExports\<close> returned,
  which may be \<^verbatim>\<open>null\<close>. The spec calls the test "is an ESM-flagged file", a test on
  paths; \<^verbatim>\<open>null\<close> is no path and so no such file.
\<close>

definition isExtMJS_found :: "env \<Rightarrow> found \<Rightarrow> bool" where
  "isExtMJS_found E foundPath = (case foundPath of Str p \<Rightarrow> isExtMJS E p | Null \<Rightarrow> False)"

text \<open>
  The warning of \<^verbatim>\<open>emitWarning(..., "DeprecationWarning", "DEP0128")\<close>: the values its
  message is built from, which are \<^verbatim>\<open>field\<close>, \<^verbatim>\<open>jsonPath\<close> and \<^verbatim>\<open>fieldValue\<close>.
\<close>

datatype warning = DEP0128 "string option" string "json option"

text \<open>
  The loop \<^verbatim>\<open>for (field of fields)\<close>: the path it returns from \<^verbatim>\<open>tryPackage\<close> with, or
  \<open>None\<close> when it runs to its end. The parameter \<^verbatim>\<open>fields\<close> of the source is
  \<open>fieldNames\<close> throughout, the name \<open>fields\<close> being taken by the record type.
\<close>

fun tryPackage_fields ::
  "env \<Rightarrow> string \<Rightarrow> (string \<times> json) list \<Rightarrow> string list \<Rightarrow> string list \<Rightarrow> bool \<Rightarrow> string option"
where
  "tryPackage_fields E dirPath json [] exts isMain = None"
| "tryPackage_fields E dirPath json (field # fieldNames) exts isMain =
     (let fieldValue = map_of json field;
          foundPath = tryField E dirPath fieldValue exts isMain
      in if foundPath \<noteq> '''' \<and> (field = ''main'' \<or> \<not> isExtMJS E foundPath)
         then Some foundPath
         else tryPackage_fields E dirPath json fieldNames exts isMain)"

text \<open>
  The end of \<^verbatim>\<open>tryPackage\<close>, from \<^verbatim>\<open>const jsonPath\<close> on. After the loop \<^verbatim>\<open>field\<close> and
  \<^verbatim>\<open>fieldValue\<close> hold what its last round gave them, and \<^verbatim>\<open>undefined\<close> when the
  list of fields is empty.
\<close>

definition tryPackage_index ::
  "env \<Rightarrow> string \<Rightarrow> string \<Rightarrow> (string \<times> json) list \<Rightarrow> string list \<Rightarrow> string list \<Rightarrow> bool
     \<Rightarrow> error + found \<times> warning list"
where
  "tryPackage_index E request dirPath json fieldNames exts isMain =
     (let field = (if fieldNames = [] then None else Some (last fieldNames));
          fieldValue = (case field of None \<Rightarrow> None | Some f \<Rightarrow> map_of json f);
          jsonPath = dirPath @ sep E @ ''package.json'';
          foundPath = tryExtensions E (dirPath @ sep E @ ''index'') exts isMain
      in if foundPath = '''' then Inl (MAIN_NOT_FOUND request jsonPath)
         else Inr (Str foundPath,
                   if pendingDeprecation E then [DEP0128 field jsonPath fieldValue] else []))"

text \<open>
  The block \<^verbatim>\<open>if (json.exports) { ... }\<close>: what \<^verbatim>\<open>tryPackage\<close> returns or throws from
  it, or \<open>None\<close> when control passes on to the index probe.
\<close>

definition tryPackage_exports ::
  "env \<Rightarrow> string \<Rightarrow> string \<Rightarrow> (string \<times> json) list \<Rightarrow> (error + found) option"
where
  "tryPackage_exports E request dirPath json =
     (if truthy (map_of json ''exports'') then
        (case resolveExports E (the (map_of json ''exports'')) dirPath
                (substring_from request (int (length dirPath) + 1)) of
           Inl e \<Rightarrow> Some (Inl e)
         | Inr foundPath \<Rightarrow>
             if foundPath \<noteq> Str '''' \<and> \<not> isExtMJS_found E foundPath
             then Some (Inr foundPath)
             else None)
      else None)"

definition tryPackage ::
  "env \<Rightarrow> string \<Rightarrow> string \<Rightarrow> string list \<Rightarrow> string list \<Rightarrow> bool \<Rightarrow> error + found \<times> warning list"
where
  "tryPackage E request dirPath fieldNames exts isMain =
     (case readPackage E dirPath fieldNames of
        None \<Rightarrow> Inr (Str (tryExtensions E (dirPath @ sep E @ ''index'') exts isMain), [])
      | Some json \<Rightarrow>
          (case tryPackage_fields E dirPath json fieldNames exts isMain of
             Some foundPath \<Rightarrow> Inr (Str foundPath, [])
           | None \<Rightarrow>
               (case tryPackage_exports E request dirPath json of
                  Some (Inl e) \<Rightarrow> Inl e
                | Some (Inr foundPath) \<Rightarrow> Inr (foundPath, [])
                | None \<Rightarrow> tryPackage_index E request dirPath json fieldNames exts isMain)))"

section \<open>The resolver and its cache\<close>

type_synonym cache = "string \<Rightarrow> found option"

definition mainFields :: "string list" where
  "mainFields = [''main'']"

definition cacheKey_of ::
  "string \<Rightarrow> string list \<Rightarrow> bool \<Rightarrow> string list option \<Rightarrow> string list option \<Rightarrow> string"
where
  "cacheKey_of request paths isMain fieldNames exts =
     request @ [CHR 0x00] @
     (if length paths = 1 then paths ! 0 else array_join paths) @ [CHR 0x00] @
     (case fieldNames of
        None \<Rightarrow> ''''
      | Some fs \<Rightarrow> if length fs = 1 then fs ! 0 else array_join fs) @ [CHR 0x00] @
     (case exts of
        None \<Rightarrow> ''''
      | Some es \<Rightarrow> if length es = 1 then es ! 0 else array_join es) @ [CHR 0x00] @
     (if isMain then ''1'' else '''')"

definition trailingSlash_of :: "env \<Rightarrow> string \<Rightarrow> bool" where
  "trailingSlash_of E request =
     (let requestLength = int (length request)
      in if requestLength \<noteq> 0 then
           (let code = charCodeAt request (requestLength - 1);
                code = (if code = Some CHR ''.'' then
                          (let code = charCodeAt request (requestLength - 2)
                           in if code = Some CHR ''.''
                              then charCodeAt request (requestLength - 3)
                              else code)
                        else code)
            in case code of None \<Rightarrow> False | Some c \<Rightarrow> isSep E c)
         else False)"

text \<open>
  The loop \<^verbatim>\<open>for (const curPath of paths)\<close>. The defaults of \<^verbatim>\<open>exts\<close> and \<^verbatim>\<open>fields\<close> are
  put in where the loop first needs them; they are the same values in every round.
\<close>

fun findPath_loop ::
  "env \<Rightarrow> string \<Rightarrow> bool \<Rightarrow> bool \<Rightarrow> bool \<Rightarrow> bool \<Rightarrow> string list option \<Rightarrow> string list option
     \<Rightarrow> string list \<Rightarrow> error + found \<times> warning list"
where
  "findPath_loop E request isAbs useRealpath trailingSlash isMain fieldNames exts [] =
     Inr (Str '''', [])"
| "findPath_loop E request isAbs useRealpath trailingSlash isMain fieldNames exts (curPath # paths) =
     (if \<not> isAbs \<and> statFast E curPath \<noteq> 1
      then findPath_loop E request isAbs useRealpath trailingSlash isMain fieldNames exts paths
      else
        let thePath = (if useRealpath then realpath E curPath else curPath)
        in if useRealpath \<and> thePath = ''''
           then findPath_loop E request isAbs useRealpath trailingSlash isMain fieldNames exts paths
           else
             let thePath = (if isAbs
                            then (if useRealpath then thePath @ sep E @ request else thePath)
                            else resolve E thePath request);
                 rc = (if isExtJS E thePath \<or> isExtMJS E thePath
                       then (case statSync E thePath of
                               None \<Rightarrow> - 1
                             | Some stat \<Rightarrow> if isFile stat then 0 else 1)
                       else statFast E thePath);
                 exts' = (case exts of None \<Rightarrow> extensions E | Some es \<Rightarrow> es);
                 fieldNames' = (case fieldNames of None \<Rightarrow> mainFields | Some fs \<Rightarrow> fs);
                 foundPath =
                   (if \<not> trailingSlash then
                      (let foundPath = (if rc = 0
                                        then (if useRealpath then realpath E thePath else thePath)
                                        else '''')
                       in if foundPath = '''' then tryExtensions E thePath exts' isMain
                          else foundPath)
                    else '''')
             in if rc = 1 \<and> foundPath = '''' then
                  (case tryPackage E request thePath fieldNames' exts' isMain of
                     Inl e \<Rightarrow> Inl e
                   | Inr (foundPath, ws) \<Rightarrow>
                       if foundPath \<noteq> Str '''' then Inr (foundPath, ws)
                       else findPath_loop E request isAbs useRealpath trailingSlash isMain
                              fieldNames exts paths)
                else if foundPath \<noteq> '''' then Inr (Str foundPath, [])
                else findPath_loop E request isAbs useRealpath trailingSlash isMain
                       fieldNames exts paths)"

text \<open>
  \<^verbatim>\<open>findPath(request, paths, isMain, fields, exts)\<close> on the cache
  \<^verbatim>\<open>shared.memoize.moduleInternalFindPath\<close>: what it returns or throws, the cache
  after the call, and the warnings it emitted.
\<close>

definition findPath ::
  "env \<Rightarrow> cache \<Rightarrow> string \<Rightarrow> string list \<Rightarrow> bool \<Rightarrow> string list option \<Rightarrow> string list option
     \<Rightarrow> (error + found) \<times> cache \<times> warning list"
where
  "findPath E cache request paths isMain fieldNames exts =
     (let cacheKey = cacheKey_of request paths isMain fieldNames exts
      in case cache cacheKey of
           Some cached \<Rightarrow> (Inr cached, cache, [])
         | None \<Rightarrow>
             let useRealpath = (if isMain then resolveSymlinksMain E else resolveSymlinks E);
                 isAbs = isAbsolute E request
             in if \<not> isAbs \<and> length paths = 0 then (Inr (Str ''''), cache, [])
                else
                  let trailingSlash = trailingSlash_of E request;
                      paths' = (if isAbs
                                then (if useRealpath then [dirname E request] else [request])
                                else paths);
                      request' = (if isAbs \<and> useRealpath then basename E request else request)
                  in case findPath_loop E request' isAbs useRealpath trailingSlash isMain
                            fieldNames exts paths' of
                       Inl e \<Rightarrow> (Inl e, cache, [])
                     | Inr (foundPath, ws) \<Rightarrow>
                         if foundPath \<noteq> Str ''''
                         then (Inr foundPath, cache(cacheKey := Some foundPath), ws)
                         else (Inr (Str ''''), cache, ws))"

section \<open>A POSIX filesystem to run the resolver on\<close>

text \<open>
  Concrete collaborators for the examples: the path functions as Node has them
  on POSIX, with \<^verbatim>\<open>/\<close> as the working directory, over a filesystem without symbolic
  links that is given by the list of its files, the list of its directories and the
  parsed \<^verbatim>\<open>package.json\<close> of its package directories.
\<close>

text \<open>
  The segments of a path without the empty ones and the dots, a \<^verbatim>\<open>..\<close> taking the
  segment before it away; \<open>allowAboveRoot\<close> says whether a \<^verbatim>\<open>..\<close> may stay at the front.
\<close>

fun normalizeSegments :: "bool \<Rightarrow> string list \<Rightarrow> string list \<Rightarrow> string list" where
  "normalizeSegments allowAboveRoot acc [] = rev acc"
| "normalizeSegments allowAboveRoot acc (seg # segs) =
     (if seg = '''' \<or> seg = ''.'' then normalizeSegments allowAboveRoot acc segs
      else if seg = ''..'' then
        (case acc of
           [] \<Rightarrow> normalizeSegments allowAboveRoot (if allowAboveRoot then [''..''] else []) segs
         | lastSeg # below \<Rightarrow>
             if lastSeg = ''..'' then normalizeSegments allowAboveRoot (''..'' # acc) segs
             else normalizeSegments allowAboveRoot below segs)
      else normalizeSegments allowAboveRoot (seg # acc) segs)"

fun joinSegments :: "string list \<Rightarrow> string" where
  "joinSegments [] = ''''"
| "joinSegments [x] = x"
| "joinSegments (x # y # ys) = x @ ''/'' @ joinSegments (y # ys)"

definition posix_isAbsolute :: "string \<Rightarrow> bool" where
  "posix_isAbsolute p = (case p of [] \<Rightarrow> False | c # _ \<Rightarrow> c = CHR ''/'')"

definition posix_normalize :: "string \<Rightarrow> string" where
  "posix_normalize p =
     (if p = '''' then ''.''
      else
        let isAbs = posix_isAbsolute p;
            trailingSeparator = (last p = CHR ''/'');
            q = joinSegments (normalizeSegments (\<not> isAbs) [] (split_on CHR ''/'' p))
        in if q = '''' then (if isAbs then ''/'' else if trailingSeparator then ''./'' else ''.'')
           else (if isAbs then ''/'' else '''') @ q @ (if trailingSeparator then ''/'' else ''''))"

definition posix_join :: "string \<Rightarrow> string \<Rightarrow> string" where
  "posix_join a b =
     (let joined = (if a = '''' then b else if b = '''' then a else a @ ''/'' @ b)
      in posix_normalize joined)"

definition posix_resolve :: "string \<Rightarrow> string \<Rightarrow> string" where
  "posix_resolve a b =
     (let p = (if posix_isAbsolute b then b
               else if b = '''' then a
               else if a = '''' then b
               else a @ ''/'' @ b)
      in ''/'' @ joinSegments (normalizeSegments False [] (split_on CHR ''/'' p)))"

definition posix_dirname :: "string \<Rightarrow> string" where
  "posix_dirname p =
     (if p = '''' then ''.''
      else
        let beforeName = dropWhile (\<lambda>c. c \<noteq> CHR ''/'')
                           (dropWhile (\<lambda>c. c = CHR ''/'') (rev (tl p)))
        in if beforeName = [] then (if posix_isAbsolute p then ''/'' else ''.'')
           else if posix_isAbsolute p \<and> length beforeName = 1 then ''//''
           else take (length beforeName) p)"

definition posix_basename :: "string \<Rightarrow> string" where
  "posix_basename p =
     rev (takeWhile (\<lambda>c. c \<noteq> CHR ''/'') (dropWhile (\<lambda>c. c = CHR ''/'') (rev p)))"

definition posix_isExtJS :: "string \<Rightarrow> bool" where
  "posix_isExtJS p = (length p > 3 \<and> endsWith p ''.js'')"

definition posix_isExtMJS :: "string \<Rightarrow> bool" where
  "posix_isExtMJS p = (length p > 4 \<and> endsWith p ''.mjs'')"

definition posix_env ::
  "string list \<Rightarrow> string list \<Rightarrow> (string \<times> (string \<times> json) list) list \<Rightarrow> bool \<Rightarrow> bool \<Rightarrow> env"
where
  "posix_env files dirs packages preserve deprecation =
     \<lparr> sep = ''/'',
       isSep = (\<lambda>c. c = CHR ''/''),
       isAbsolute = posix_isAbsolute,
       resolve = posix_resolve,
       join = posix_join,
       dirname = posix_dirname,
       basename = posix_basename,
       isExtJS = posix_isExtJS,
       isExtMJS = posix_isExtMJS,
       statFast = (\<lambda>p. if p \<in> set files then 0 else if p \<in> set dirs then 1 else - 1),
       statSync = (\<lambda>p. if p \<in> set files then Some (Stats True)
                        else if p \<in> set dirs then Some (Stats False)
                        else None),
       realpath = (\<lambda>p. if p \<in> set files \<or> p \<in> set dirs then p else ''''),
       existsSync = (\<lambda>p. p \<in> set files \<or> p \<in> set dirs),
       readPackage = (\<lambda>dirPath fieldNames. map_of packages dirPath),
       extensions = [''.js'', ''.json'', ''.node''],
       TINK = False,
       YARN_PNP = False,
       preserveSymlinks = preserve,
       preserveSymlinksMain = preserve,
       pendingDeprecation = deprecation \<rparr>"

section \<open>Example filesystems\<close>

text \<open>Two files that differ in their extension only.\<close>

definition fs_both :: env where
  "fs_both = posix_env [''/a/m.mjs'', ''/a/m.js''] [''/a''] [] False False"

text \<open>
  A package whose \<^verbatim>\<open>module\<close> field names an \<^verbatim>\<open>.mjs\<close> file and whose \<^verbatim>\<open>main\<close> field
  names a \<^verbatim>\<open>.js\<close> file, and a package whose \<^verbatim>\<open>main\<close> field names an \<^verbatim>\<open>.mjs\<close> file.
\<close>

definition fs_fields :: env where
  "fs_fields =
     posix_env [''/p/e.mjs'', ''/p/m.js'', ''/p/index.js'', ''/q/e.mjs''] [''/p'', ''/q'']
       [(''/p'', [(''module'', JStr ''e.mjs''), (''main'', JStr ''m.js'')]),
        (''/q'', [(''main'', JStr ''e.mjs'')])]
       False False"

text \<open>
  Two packages whose \<^verbatim>\<open>module\<close> field names an \<^verbatim>\<open>.mjs\<close> file and which have an index
  file and no \<^verbatim>\<open>main\<close>: \<^verbatim>\<open>/nm/p\<close> with an exports declaration whose only key is
  \<^verbatim>\<open>import\<close>, \<^verbatim>\<open>/nm/q\<close> without an exports declaration.
\<close>

definition fs_module :: env where
  "fs_module =
     posix_env [''/nm/p/e.mjs'', ''/nm/p/index.js'', ''/nm/q/e.mjs'', ''/nm/q/index.js'']
       [''/nm'', ''/nm/p'', ''/nm/q'']
       [(''/nm/p'', [(''module'', JStr ''e.mjs''),
                     (''exports'', JObj [(''import'', JStr ''./e.mjs'')])]),
        (''/nm/q'', [(''module'', JStr ''e.mjs'')])]
       False False"

text \<open>A package directory for the examples about the exports declaration.\<close>

definition fs_conditions :: env where
  "fs_conditions = posix_env [''/p/d.js'', ''/p/n.js''] [''/p''] [] False False"

text \<open>
  Packages whose descriptor has an exports declaration and no \<^verbatim>\<open>main\<close>: with an index
  file, without one (beside a package that has no exports declaration either), and
  with \<^verbatim>\<open>import\<close> as the only key of the declaration.
\<close>

definition fs_feature :: env where
  "fs_feature =
     posix_env [''/nm/pkg/index.js'', ''/nm/pkg/dist/feature.js'']
       [''/nm'', ''/nm/pkg'', ''/nm/pkg/dist'']
       [(''/nm/pkg'', [(''exports'', JObj [(''./feature'', JStr ''./dist/feature.js'')])])]
       False False"

definition fs_noindex :: env where
  "fs_noindex =
     posix_env [''/nm/pkg/dist/feature.js'', ''/nm/bare/lib.js'']
       [''/nm'', ''/nm/pkg'', ''/nm/pkg/dist'', ''/nm/bare'']
       [(''/nm/pkg'', [(''exports'', JObj [(''./feature'', JStr ''./dist/feature.js'')])]),
        (''/nm/bare'', [(''name'', JStr ''bare'')])]
       False False"

definition fs_import :: env where
  "fs_import =
     posix_env [''/nm/pkg/index.js'', ''/nm/pkg/e.mjs''] [''/nm'', ''/nm/pkg'']
       [(''/nm/pkg'', [(''exports'', JObj [(''import'', JStr ''./e.mjs'')])])]
       False False"

text \<open>
  Deprecation warnings switched on: a package whose \<^verbatim>\<open>main\<close> names a file that does not
  exist, and a package whose \<^verbatim>\<open>module\<close> field is a number; both have an index file.
\<close>

definition fs_main_missing :: env where
  "fs_main_missing =
     posix_env [''/p/index.js'', ''/q/index.js''] [''/p'', ''/q'']
       [(''/p'', [(''main'', JStr ''lib.js'')]), (''/q'', [(''module'', JNum 1)])]
       False True"

text \<open>
  Two directories, before and after the file \<^verbatim>\<open>/b/x.js\<close> is written.
\<close>

definition fs_empty :: env where
  "fs_empty = posix_env [] [''/a'', ''/b''] [] False False"

definition fs_added :: env where
  "fs_added = posix_env [''/b/x.js''] [''/a'', ''/b''] [] False False"

section \<open>Extension probing keeps the caller's order\<close>

lemma tryExtensions_find:
  "tryExtensions E thePath exts isMain =
     (case List.find (\<lambda>ext. tryFilename E (thePath @ ext) isMain \<noteq> '''') exts of
        None \<Rightarrow> ''''
      | Some ext \<Rightarrow> tryFilename E (thePath @ ext) isMain)"
  by (induction exts) (simp_all add: Let_def)

text \<open>
  Claim C8. For every base path and every list of extensions, \<^verbatim>\<open>tryExtensions\<close> returns
  what \<^verbatim>\<open>tryFilename(base + ext)\<close> returns for the first extension, in the caller's
  order, for which that is not the empty string, and the empty string when there is no
  such extension. In particular, when \<^verbatim>\<open>base.mjs\<close> is an existing file, the extensions
  \<^verbatim>\<open>[".mjs", ".js"]\<close> select it, whether or not \<^verbatim>\<open>base.js\<close> exists too.
\<close>

theorem tryExtensions_caller_order:
  "tryExtensions E thePath exts isMain =
     (case List.find (\<lambda>ext. tryFilename E (thePath @ ext) isMain \<noteq> '''') exts of
        None \<Rightarrow> ''''
      | Some ext \<Rightarrow> tryFilename E (thePath @ ext) isMain)
   \<and> (tryFilename E (thePath @ ''.mjs'') isMain \<noteq> '''' \<longrightarrow>
        tryExtensions E thePath [''.mjs'', ''.js''] isMain
          = tryFilename E (thePath @ ''.mjs'') isMain)"
  by (simp add: tryExtensions_find)

theorem tryExtensions_caller_order_witness:
  "tryFilename fs_both ''/a/m.mjs'' False = ''/a/m.mjs''
   \<and> tryFilename fs_both ''/a/m.js'' False = ''/a/m.js''
   \<and> tryExtensions fs_both ''/a/m'' [''.mjs'', ''.js''] False = ''/a/m.mjs''"
proof -
  have mjs: "tryFilename fs_both (''/a/m'' @ ''.mjs'') False \<noteq> ''''"
    by code_simp
  from tryExtensions_caller_order [of fs_both "''/a/m''" "[''.mjs'', ''.js'']" False] mjs
  have "tryExtensions fs_both ''/a/m'' [''.mjs'', ''.js''] False
          = tryFilename fs_both (''/a/m'' @ ''.mjs'') False"
    by blast
  moreover have "tryFilename fs_both ''/a/m.mjs'' False = ''/a/m.mjs''"
    by code_simp
  moreover have "tryFilename fs_both ''/a/m.js'' False = ''/a/m.js''"
    by code_simp
  ultimately show ?thesis by simp
qed

section \<open>The entry-point fields of a package\<close>

lemma tryPackage_fields_find:
  "tryPackage_fields E dirPath json fieldNames exts isMain =
     map_option (\<lambda>field. tryField E dirPath (map_of json field) exts isMain)
       (List.find
          (\<lambda>field. tryField E dirPath (map_of json field) exts isMain \<noteq> '''' \<and>
                   (field = ''main'' \<or>
                    \<not> isExtMJS E (tryField E dirPath (map_of json field) exts isMain)))
          fieldNames)"
  by (induction fieldNames) (simp_all add: Let_def)

text \<open>
  For every package descriptor and every list of fields, \<^verbatim>\<open>tryPackage\<close> goes
  through the fields in the caller's order and returns what \<^verbatim>\<open>tryField\<close> resolves the
  first field to for which that path is not empty and either the field is literally
  \<^verbatim>\<open>main\<close> or the path is not an \<^verbatim>\<open>.mjs\<close> file. A field that is not \<^verbatim>\<open>main\<close> and resolves
  to an \<^verbatim>\<open>.mjs\<close> file is passed over; when every field is passed over, the result is
  what the exports block returns or throws, and that of the index probe only when
  the exports block passes control on.
\<close>

lemma tryPackage_field_order:
  "readPackage E dirPath fieldNames = Some json \<Longrightarrow>
   tryPackage E request dirPath fieldNames exts isMain =
     (case List.find
             (\<lambda>field. tryField E dirPath (map_of json field) exts isMain \<noteq> '''' \<and>
                      (field = ''main'' \<or>
                       \<not> isExtMJS E (tryField E dirPath (map_of json field) exts isMain)))
             fieldNames of
        Some field \<Rightarrow> Inr (Str (tryField E dirPath (map_of json field) exts isMain), [])
      | None \<Rightarrow>
          (case tryPackage_exports E request dirPath json of
             Some (Inl e) \<Rightarrow> Inl e
           | Some (Inr foundPath) \<Rightarrow> Inr (foundPath, [])
           | None \<Rightarrow> tryPackage_index E request dirPath json fieldNames exts isMain))"
  by (simp add: tryPackage_def tryPackage_fields_find split: option.splits)

lemma tryPackage_field_order_example:
  "tryField fs_fields ''/p'' (Some (JStr ''e.mjs'')) [''.js''] False = ''/p/e.mjs''
   \<and> tryPackage fs_fields ''/p'' ''/p'' [''module'', ''main''] [''.js''] False
       = Inr (Str ''/p/m.js'', [])
   \<and> tryPackage fs_fields ''/p'' ''/p'' [''module''] [''.js''] False
       = Inr (Str ''/p/index.js'', [])
   \<and> tryPackage fs_fields ''/q'' ''/q'' [''main''] [''.js''] False
       = Inr (Str ''/q/e.mjs'', [])"
proof -
  have descriptor:
    "readPackage fs_fields ''/p'' [''module'', ''main'']
       = Some [(''module'', JStr ''e.mjs''), (''main'', JStr ''m.js'')]"
    by code_simp
  note first = tryPackage_field_order [OF descriptor, of "''/p''" "[''.js'']" False]
  have "tryField fs_fields ''/p'' (Some (JStr ''e.mjs'')) [''.js''] False = ''/p/e.mjs''"
    by code_simp
  moreover have "tryPackage fs_fields ''/p'' ''/p'' [''module'', ''main''] [''.js''] False
       = Inr (Str ''/p/m.js'', [])"
    unfolding first by code_simp
  moreover have "tryPackage fs_fields ''/p'' ''/p'' [''module''] [''.js''] False
       = Inr (Str ''/p/index.js'', [])"
    by code_simp
  moreover have "tryPackage fs_fields ''/q'' ''/q'' [''main''] [''.js''] False
       = Inr (Str ''/q/e.mjs'', [])"
    by code_simp
  ultimately show ?thesis by blast
qed

text \<open>
  Claim C5 says that the fields are tried in the caller's order, that the first
  resolved path is returned if and only if its field is literally \<^verbatim>\<open>main\<close> or the path
  is not an \<^verbatim>\<open>.mjs\<close> file, and that after a rejected field resolution goes on to the
  later fields, then to the exports declaration and the index fallback. The order and
  the rule of acceptance are as the claim has them (the two lemmas above). The last
  step is not: in \<^verbatim>\<open>/nm/p\<close> the field \<^verbatim>\<open>module\<close> resolves to \<^verbatim>\<open>/nm/p/e.mjs\<close> and is
  rejected, \<^verbatim>\<open>main\<close> is absent, the exports declaration resolves nothing, and
  \<^verbatim>\<open>tryPackage\<close> and \<^verbatim>\<open>findPath\<close> return \<^verbatim>\<open>null\<close> although the index probe finds
  \<^verbatim>\<open>/nm/p/index.js\<close>; \<^verbatim>\<open>/nm/q\<close>, the same without an exports declaration, resolves
  to its index file.
\<close>

theorem tryPackage_rejected_field_returns_null:
  "tryField fs_module ''/nm/p'' (Some (JStr ''e.mjs'')) [''.js''] False = ''/nm/p/e.mjs''
   \<and> tryPackage_fields fs_module ''/nm/p''
         [(''module'', JStr ''e.mjs''), (''exports'', JObj [(''import'', JStr ''./e.mjs'')])]
         [''module'', ''main''] [''.js''] False = None
   \<and> tryPackage fs_module ''p'' ''/nm/p'' [''module'', ''main''] [''.js''] False
       = Inr (Null, [])
   \<and> tryExtensions fs_module ''/nm/p/index'' [''.js''] False = ''/nm/p/index.js''
   \<and> fst (findPath fs_module Map.empty ''p'' [''/nm''] False (Some [''module'', ''main''])
            (Some [''.js'']))
       = Inr Null
   \<and> tryPackage fs_module ''q'' ''/nm/q'' [''module'', ''main''] [''.js''] False
       = Inr (Str ''/nm/q/index.js'', [])
   \<and> fst (findPath fs_module Map.empty ''q'' [''/nm''] False (Some [''module'', ''main''])
            (Some [''.js'']))
       = Inr (Str ''/nm/q/index.js'')"
  by code_simp

section \<open>The conditions of an exports mapping\<close>

lemma map_of_filter_wellKnown:
  "k \<in> set wellKnownConditions \<Longrightarrow>
     map_of (filter (\<lambda>kv. fst kv \<notin> set wellKnownConditions) kvs) k = None"
  by (auto simp: map_of_eq_None_iff)

lemma conditions_of_filter:
  "conditions_of (filter (\<lambda>kv. fst kv \<notin> set wellKnownConditions) kvs) = conditions_of kvs"
  by (simp add: conditions_of_def)

lemma resolveExports_remaining_keys:
  assumes "\<not> truthy (map_of exports ''require'')" "\<not> truthy (map_of exports ''node'')"
    "\<not> truthy (map_of exports ''default'')" "\<not> (truthy (map_of exports ''.'') \<and> subpath = '''')"
  shows "resolveExports E (JObj exports) packagePath subpath =
         resolveExports E (JObj (filter (\<lambda>kv. fst kv \<notin> set wellKnownConditions) exports))
           packagePath subpath"
proof -
  have none: "map_of (filter (\<lambda>kv. fst kv \<notin> set wellKnownConditions) exports) k = None"
    if "k \<in> set wellKnownConditions" for k
    using that by (rule map_of_filter_wellKnown)
  have wk: "''require'' \<in> set wellKnownConditions" "''node'' \<in> set wellKnownConditions"
    "''default'' \<in> set wellKnownConditions" "''.'' \<in> set wellKnownConditions"
    by (simp_all add: wellKnownConditions_def)
  show ?thesis
    using assms by (simp add: none [OF wk(1)] none [OF wk(2)] none [OF wk(3)] none [OF wk(4)]
        conditions_of_filter del: filter.simps)
qed

text \<open>
  Claim C6, as the code has it. For every conditional exports mapping,
  \<^verbatim>\<open>resolveExports\<close> takes the first of \<^verbatim>\<open>require\<close>, \<^verbatim>\<open>node\<close>, \<^verbatim>\<open>default\<close> and, when the
  subpath is empty, \<^verbatim>\<open>.\<close>, in this order, whose value is truthy, and returns whatever
  the recursion into that value returns, also when that is no resolution; the later
  conditions are never consulted. Only when none of them is truthy does the result
  come from the remaining keys, those outside the well-known set, read as wildcard
  patterns: it is the result for the mapping restricted to those keys.
\<close>

theorem resolveExports_condition_precedence:
  "resolveExports E (JObj exports) packagePath subpath =
     (case List.find (\<lambda>c. truthy (map_of exports c))
             ([''require'', ''node'', ''default''] @ (if subpath = '''' then [''.''] else [])) of
        Some c \<Rightarrow> resolveExports E (the (map_of exports c)) packagePath subpath
      | None \<Rightarrow>
          resolveExports E (JObj (filter (\<lambda>kv. fst kv \<notin> set wellKnownConditions) exports))
            packagePath subpath)"
proof (cases "truthy (map_of exports ''require'') \<or> truthy (map_of exports ''node'')
    \<or> truthy (map_of exports ''default'') \<or> (truthy (map_of exports ''.'') \<and> subpath = '''')")
  case True
  then show ?thesis by auto
next
  case False
  then have "resolveExports E (JObj exports) packagePath subpath =
         resolveExports E (JObj (filter (\<lambda>kv. fst kv \<notin> set wellKnownConditions) exports))
           packagePath subpath"
    by (intro resolveExports_remaining_keys) auto
  with False show ?thesis by (auto simp del: resolveExports.simps)
qed

theorem resolveExports_condition_precedence_witness:
  "resolveExports fs_conditions
     (JObj [(''default'', JStr ''./d.js''), (''node'', JStr ''./n.js''), (''./x'', JStr ''./x.js'')])
     ''/p'' '''' = Inr (Str ''/p/n.js'')
   \<and> resolveExports fs_conditions
     (JObj [(''import'', JStr ''./e.mjs''), (''./x'', JStr ''./x.js'')]) ''/p'' ''x''
     = Inr (Str ''/p/x.js'')"
proof -
  have "resolveExports fs_conditions
     (JObj [(''default'', JStr ''./d.js''), (''node'', JStr ''./n.js''), (''./x'', JStr ''./x.js'')])
     ''/p'' '''' = Inr (Str ''/p/n.js'')"
    by (subst resolveExports_condition_precedence) code_simp
  moreover have "resolveExports fs_conditions
     (JObj [(''import'', JStr ''./e.mjs''), (''./x'', JStr ''./x.js'')]) ''/p'' ''x''
     = Inr (Str ''/p/x.js'')"
    by (subst resolveExports_condition_precedence) code_simp
  ultimately show ?thesis by blast
qed

text \<open>
  The claim as it is written fails: here \<^verbatim>\<open>node\<close> is present and yields no result,
  \<^verbatim>\<open>default\<close> is present and yields \<^verbatim>\<open>/p/d.js\<close>, and the mapping resolves to \<^verbatim>\<open>null\<close>.
\<close>

theorem resolveExports_first_present_counterexample:
  "resolveExports fs_conditions
     (JObj [(''node'', JObj [(''import'', JStr ''./n.mjs'')]), (''default'', JStr ''./d.js'')])
     ''/p'' '''' = Inr Null
   \<and> resolveExports fs_conditions (JObj [(''import'', JStr ''./n.mjs'')]) ''/p'' '''' = Inr Null
   \<and> resolveExports fs_conditions (JStr ''./d.js'') ''/p'' '''' = Inr (Str ''/p/d.js'')"
  by code_simp

section \<open>Wildcard patterns\<close>

text \<open>A pattern with text after its star substitutes the middle of the subpath.\<close>

lemma resolveExports_star_with_suffix:
  "resolveExports E (JObj [(''./lib/*.js'', JStr ''./dist/*.js'')]) packagePath ''lib/foo.js''
     = Inr (Str (join E packagePath ''./dist/foo.js''))"
  by code_simp

text \<open>
  Claim C2 says that the pattern \<^verbatim>\<open>./lib/*\<close> with the target \<^verbatim>\<open>./dist/*.js\<close> resolves the
  subpath \<^verbatim>\<open>lib/foo\<close> to \<^verbatim>\<open>dist/foo.js\<close> in the package directory. The code splits the
  pattern into \<^verbatim>\<open>./lib/\<close> and the empty string, takes the empty \<^verbatim>\<open>endsWith\<close> for
  falsy, skips the substitution and returns the target with its star, for every
  package directory: \<^verbatim>\<open>/p/dist/*.js\<close> on the POSIX filesystem.
\<close>

theorem resolveExports_star_without_suffix:
  "resolveExports E (JObj [(''./lib/*'', JStr ''./dist/*.js'')]) packagePath ''lib/foo''
     = Inr (Str (join E packagePath ''./dist/*.js''))
   \<and> resolveExports fs_conditions (JObj [(''./lib/*'', JStr ''./dist/*.js'')]) ''/p'' ''lib/foo''
     = Inr (Str ''/p/dist/*.js'')"
  by code_simp

section \<open>Mappings of well-known conditions only\<close>

lemma resolveExports_only_import:
  "resolveExports E (JObj [(''import'', target)]) packagePath subpath = Inr Null"
  by (simp add: conditions_of_def wellKnownConditions_def)

lemma resolveExports_well_known_only:
  assumes "fst ` set exports \<subseteq> set wellKnownConditions"
    and "\<not> truthy (map_of exports ''require'')" "\<not> truthy (map_of exports ''node'')"
    and "\<not> truthy (map_of exports ''default'')"
    and "\<not> (truthy (map_of exports ''.'') \<and> subpath = '''')"
  shows "resolveExports E (JObj exports) packagePath subpath = Inr Null"
proof -
  have "filter (\<lambda>kv. fst kv \<notin> set wellKnownConditions) exports = []"
    using assms(1) by (auto simp: filter_empty_conv)
  then have "conditions_of exports = []"
    by (simp add: conditions_of_def)
  with assms(2-) show ?thesis by auto
qed

section \<open>When the exports declaration resolves nothing\<close>

text \<open>
  For all collaborators: with a descriptor, no accepted field and a truthy exports
  declaration that \<^verbatim>\<open>resolveExports\<close> answers with \<^verbatim>\<open>null\<close>, the result of
  \<^verbatim>\<open>tryPackage\<close> is \<^verbatim>\<open>null\<close>, whatever the index probe would find.
\<close>

lemma tryPackage_returns_null:
  assumes "readPackage E dirPath fieldNames = Some json"
    and "tryPackage_fields E dirPath json fieldNames exts isMain = None"
    and "truthy (map_of json ''exports'')"
    and "resolveExports E (the (map_of json ''exports'')) dirPath
           (substring_from request (int (length dirPath) + 1)) = Inr Null"
  shows "tryPackage E request dirPath fieldNames exts isMain = Inr (Null, [])"
  using assms by (simp add: tryPackage_def tryPackage_exports_def isExtMJS_found_def)

text \<open>
  Claim C1 says that \<^verbatim>\<open>tryPackage\<close> goes on to the index probe when the exports
  resolution fails, and returns a path or the empty string only. The code returns
  \<^verbatim>\<open>null\<close>: \<^verbatim>\<open>resolveExports\<close> reports failure by \<^verbatim>\<open>null\<close>, \<^verbatim>\<open>tryPackage\<close> tests for
  the empty string, and so it takes the \<^verbatim>\<open>null\<close> for a path that was found. Here the
  declared subpath \<^verbatim>\<open>feature\<close> resolves, the undeclared subpath \<^verbatim>\<open>other\<close> gives
  \<^verbatim>\<open>null\<close> although the index probe finds \<^verbatim>\<open>/nm/pkg/index.js\<close>, and \<^verbatim>\<open>findPath\<close>
  returns \<^verbatim>\<open>null\<close> for the package itself and stores it in the cache.
\<close>

theorem tryPackage_exports_failure_returns_null:
  "tryPackage fs_feature ''/nm/pkg/feature'' ''/nm/pkg'' [''main''] [''.js''] False
     = Inr (Str ''/nm/pkg/dist/feature.js'', [])
   \<and> tryPackage fs_feature ''/nm/pkg/other'' ''/nm/pkg'' [''main''] [''.js''] False
     = Inr (Null, [])
   \<and> tryExtensions fs_feature ''/nm/pkg/index'' [''.js''] False = ''/nm/pkg/index.js''
   \<and> fst (findPath fs_feature Map.empty ''pkg'' [''/nm''] False None None) = Inr Null
   \<and> fst (snd (findPath fs_feature Map.empty ''pkg'' [''/nm''] False None None))
        (cacheKey_of ''pkg'' [''/nm''] False None None) = Some Null"
  by code_simp

section \<open>When MAIN_NOT_FOUND is thrown\<close>

lemma find_export_error: "find_export E packagePath xs = Inl e \<Longrightarrow> e = TypeError"
  by (induction E packagePath xs rule: find_export.induct) (auto split: if_splits)

lemma resolveExports_error:
  "resolveExports E exports packagePath subpath = Inl e \<Longrightarrow> e = TypeError"
proof (induction E exports packagePath subpath rule: resolveExports.induct)
  case (2 E exports packagePath subpath)
  then show ?case
    by (auto split: sum.splits option.splits if_splits dest: find_export_error)
next
  case (6 E exports packagePath subpath)
  then show ?case
    by (auto simp: Let_def split: if_splits option.splits)
qed auto

lemma tryPackage_exports_error:
  "tryPackage_exports E request dirPath json = Some (Inl e) \<Longrightarrow> e = TypeError"
  by (auto simp: tryPackage_exports_def split: if_splits sum.splits dest: resolveExports_error)

text \<open>
  What the code does: the error is thrown exactly when there is a descriptor, the loop
  over the fields and the exports block both pass control on, and the index probe finds
  nothing; it carries the request and the path of \<^verbatim>\<open>package.json\<close>.
\<close>

lemma tryPackage_MAIN_NOT_FOUND_iff:
  "tryPackage E request dirPath fieldNames exts isMain = Inl (MAIN_NOT_FOUND r p) \<longleftrightarrow>
     (\<exists>json. readPackage E dirPath fieldNames = Some json \<and>
        tryPackage_fields E dirPath json fieldNames exts isMain = None \<and>
        tryPackage_exports E request dirPath json = None \<and>
        tryExtensions E (dirPath @ sep E @ ''index'') exts isMain = '''' \<and>
        r = request \<and> p = dirPath @ sep E @ ''package.json'')"
  by (auto simp: tryPackage_def tryPackage_index_def Let_def
      split: option.splits sum.splits if_splits dest: tryPackage_exports_error)

lemma tryPackage_no_descriptor:
  "readPackage E dirPath fieldNames = None \<Longrightarrow>
     tryPackage E request dirPath fieldNames exts isMain =
       Inr (Str (tryExtensions E (dirPath @ sep E @ ''index'') exts isMain), [])"
  by (simp add: tryPackage_def)

text \<open>
  Claim C4 says that MAIN_NOT_FOUND is thrown if and only if the directory has a
  descriptor and neither a field, nor the exports resolution, nor the index probe yields
  a path. In the code the exports block does not pass control on when the resolution
  fails: \<^verbatim>\<open>/nm/pkg\<close> has a descriptor, no field, an exports declaration that resolves
  nothing and no index file, and \<^verbatim>\<open>tryPackage\<close> returns \<^verbatim>\<open>null\<close> where the claim has
  the error; \<^verbatim>\<open>/nm/bare\<close>, the same without an exports declaration, does throw it.
\<close>

theorem tryPackage_no_MAIN_NOT_FOUND_after_exports:
  "tryPackage fs_noindex ''pkg'' ''/nm/pkg'' [''main''] [''.js''] False = Inr (Null, [])
   \<and> tryExtensions fs_noindex ''/nm/pkg/index'' [''.js''] False = ''''
   \<and> fst (findPath fs_noindex Map.empty ''pkg'' [''/nm''] False None None) = Inr Null
   \<and> tryPackage fs_noindex ''bare'' ''/nm/bare'' [''main''] [''.js''] False
     = Inl (MAIN_NOT_FOUND ''bare'' ''/nm/bare/package.json'')
   \<and> fst (findPath fs_noindex Map.empty ''bare'' [''/nm''] False None None)
     = Inl (MAIN_NOT_FOUND ''bare'' ''/nm/bare/package.json'')"
  by code_simp

text \<open>
  Claim C10 says that an exports mapping whose only key is \<^verbatim>\<open>import\<close> yields no
  resolution, so that resolution falls through to the index probe or MAIN_NOT_FOUND.
  \<^verbatim>\<open>resolveExports\<close> does return \<^verbatim>\<open>null\<close> for every such mapping, but \<^verbatim>\<open>tryPackage\<close>
  then returns that \<^verbatim>\<open>null\<close> and never reaches the index probe, which would have
  found \<^verbatim>\<open>/nm/pkg/index.js\<close>.
\<close>

theorem tryPackage_import_only_returns_null:
  "resolveExports E (JObj [(''import'', target)]) packagePath subpath = Inr Null
   \<and> tryPackage fs_import ''pkg'' ''/nm/pkg'' [''main''] [''.js''] False = Inr (Null, [])
   \<and> tryExtensions fs_import ''/nm/pkg/index'' [''.js''] False = ''/nm/pkg/index.js''
   \<and> fst (findPath fs_import Map.empty ''pkg'' [''/nm''] False None None) = Inr Null"
proof -
  have "tryPackage fs_import ''pkg'' ''/nm/pkg'' [''main''] [''.js''] False = Inr (Null, [])"
    by code_simp
  moreover have "tryExtensions fs_import ''/nm/pkg/index'' [''.js''] False = ''/nm/pkg/index.js''"
    by code_simp
  moreover have "fst (findPath fs_import Map.empty ''pkg'' [''/nm''] False None None) = Inr Null"
    by code_simp
  ultimately show ?thesis
    by (simp add: resolveExports_only_import del: resolveExports.simps)
qed

section \<open>The deprecation warning\<close>

lemma tryFilename_flag:
  "tryFilename (E\<lparr>pendingDeprecation := b\<rparr>) filename isMain = tryFilename E filename isMain"
  by (simp add: tryFilename_def resolveSymlinks_def resolveSymlinksMain_def
      preserveAllSymlinks_def)

lemma tryExtensions_flag:
  "tryExtensions (E\<lparr>pendingDeprecation := b\<rparr>) thePath exts isMain
     = tryExtensions E thePath exts isMain"
  by (induction exts) (simp_all add: tryFilename_flag Let_def)

lemma tryField_flag:
  "tryField (E\<lparr>pendingDeprecation := b\<rparr>) dirPath fieldPath exts isMain
     = tryField E dirPath fieldPath exts isMain"
  by (simp add: tryField_def tryFilename_flag tryExtensions_flag Let_def
      split: option.splits json.splits)

lemma find_export_flag:
  "find_export (E\<lparr>pendingDeprecation := b\<rparr>) packagePath xs = find_export E packagePath xs"
  by (induction E packagePath xs rule: find_export.induct) simp_all

lemma resolveExports_flag:
  "resolveExports (E\<lparr>pendingDeprecation := b\<rparr>) exports packagePath subpath
     = resolveExports E exports packagePath subpath"
proof (induction E exports packagePath subpath rule: resolveExports.induct)
  case (6 E exports packagePath subpath)
  then show ?case
    by (simp add: Let_def split: option.splits)
qed (simp_all add: find_export_flag split: sum.splits option.splits)

lemma tryPackage_fields_flag:
  "tryPackage_fields (E\<lparr>pendingDeprecation := b\<rparr>) dirPath json fieldNames exts isMain
     = tryPackage_fields E dirPath json fieldNames exts isMain"
  by (induction fieldNames) (simp_all add: tryField_flag Let_def)

lemma tryPackage_exports_flag:
  "tryPackage_exports (E\<lparr>pendingDeprecation := b\<rparr>) request dirPath json
     = tryPackage_exports E request dirPath json"
  by (simp add: tryPackage_exports_def isExtMJS_found_def resolveExports_flag
      split: sum.splits found.splits)

lemma tryPackage_flag:
  "map_sum id fst (tryPackage (E\<lparr>pendingDeprecation := b\<rparr>) request dirPath fieldNames exts isMain)
     = map_sum id fst (tryPackage E request dirPath fieldNames exts isMain)"
  by (simp add: tryPackage_def tryPackage_index_def tryPackage_fields_flag
      tryPackage_exports_flag tryExtensions_flag Let_def split: option.splits sum.splits)

text \<open>A result that is the empty string comes without a warning.\<close>

lemma tryPackage_empty_no_warning:
  "tryPackage E request dirPath fieldNames exts isMain = Inr (Str '''', ws) \<Longrightarrow> ws = []"
  by (auto simp: tryPackage_def tryPackage_index_def Let_def
      split: option.splits sum.splits if_splits)

text \<open>
  Claim C7, as the code has it. When \<^verbatim>\<open>tryPackage\<close> returns, it has emitted the
  deprecation warning if and only if deprecation-warning mode is enabled, the
  directory has a descriptor, the loop over the fields accepted no field and the
  exports block returned nothing, so that the returned path is the one of the index
  probe. The warning names the last field of the caller's list and the value the
  descriptor has for it, whatever that value is; no test for a malformed value is
  made. The returned path is the same whether the mode is enabled or not.
\<close>

theorem tryPackage_deprecation_warning:
  "tryPackage E request dirPath fieldNames exts isMain = Inr (foundPath, ws) \<Longrightarrow>
     (ws \<noteq> [] \<longleftrightarrow>
        pendingDeprecation E \<and>
        (\<exists>json. readPackage E dirPath fieldNames = Some json \<and>
           tryPackage_fields E dirPath json fieldNames exts isMain = None \<and>
           tryPackage_exports E request dirPath json = None))
     \<and> (ws = [] \<or>
         (\<exists>json. readPackage E dirPath fieldNames = Some json \<and>
            foundPath = Str (tryExtensions E (dirPath @ sep E @ ''index'') exts isMain) \<and>
            ws = [DEP0128 (if fieldNames = [] then None else Some (last fieldNames))
                    (dirPath @ sep E @ ''package.json'')
                    (if fieldNames = [] then None else map_of json (last fieldNames))]))
     \<and> map_sum id fst
           (tryPackage (E\<lparr>pendingDeprecation := b\<rparr>) request dirPath fieldNames exts isMain)
         = Inr foundPath"
proof -
  assume r: "tryPackage E request dirPath fieldNames exts isMain = Inr (foundPath, ws)"
  have flag: "map_sum id fst
           (tryPackage (E\<lparr>pendingDeprecation := b\<rparr>) request dirPath fieldNames exts isMain)
         = Inr foundPath"
    by (simp add: tryPackage_flag r)
  show ?thesis
  proof (cases "readPackage E dirPath fieldNames")
    case None
    with r flag show ?thesis by (simp add: tryPackage_def)
  next
    case (Some json)
    with r flag show ?thesis
      by (auto simp: tryPackage_def tryPackage_index_def Let_def
          split: option.splits sum.splits if_splits)
  qed
qed

theorem tryPackage_deprecation_warning_witness:
  "tryPackage fs_main_missing ''/q'' ''/q'' [''module''] [''.js''] False
     = Inr (Str ''/q/index.js'', [DEP0128 (Some ''module'') ''/q/package.json'' (Some (JNum 1))])
   \<and> map_sum id fst
         (tryPackage (fs_main_missing\<lparr>pendingDeprecation := False\<rparr>) ''/q'' ''/q'' [''module'']
            [''.js''] False)
       = Inr (Str ''/q/index.js'')"
proof -
  have ev: "tryPackage fs_main_missing ''/q'' ''/q'' [''module''] [''.js''] False
     = Inr (Str ''/q/index.js'', [DEP0128 (Some ''module'') ''/q/package.json'' (Some (JNum 1))])"
    by code_simp
  from tryPackage_deprecation_warning [OF ev, of False] ev show ?thesis
    by blast
qed

text \<open>
  The claim as it is written fails: the only field asked for is \<^verbatim>\<open>main\<close>, its value is
  a string, and the warning is emitted.
\<close>

theorem tryPackage_warning_without_malformed_field_counterexample:
  "tryPackage fs_main_missing ''/p'' ''/p'' [''main''] [''.js''] False
     = Inr (Str ''/p/index.js'',
            [DEP0128 (Some ''main'') ''/p/package.json'' (Some (JStr ''lib.js''))])"
  by code_simp

section \<open>The cache of the resolver\<close>

text \<open>
  Claim C3, as the code has it. Calling \<^verbatim>\<open>findPath\<close> a second time with the same
  arguments, on the cache the first call left and with the same collaborators, gives
  the same result and leaves the cache as it is. When the first call returned a value
  other than the empty string, that value is stored under the cache key and the second
  call is a pure cache hit: it returns the value whatever the filesystem and the other
  collaborators are, and emits nothing. A result that is the empty string, and a thrown
  error, store nothing: the cache stays as it was and the next call computes them
  again. An entry of the cache is never overwritten.
\<close>

theorem findPath_cache:
  "findPath E cache request paths isMain fieldNames exts = (r, cache', ws) \<Longrightarrow>
     fst (findPath E cache' request paths isMain fieldNames exts) = r
     \<and> fst (snd (findPath E cache' request paths isMain fieldNames exts)) = cache'
     \<and> ((\<exists>v. r = Inr v \<and> v \<noteq> Str '''') \<longrightarrow>
          (\<forall>E'. findPath E' cache' request paths isMain fieldNames exts = (r, cache', [])))
     \<and> ((r = Inr (Str '''') \<or> (\<exists>e. r = Inl e)) \<longrightarrow> cache' = cache)
     \<and> (\<forall>k v. cache k = Some v \<longrightarrow> cache' k = Some v)"
proof -
  let ?key = "cacheKey_of request paths isMain fieldNames exts"
  assume r: "findPath E cache request paths isMain fieldNames exts = (r, cache', ws)"
  show ?thesis
  proof (cases "cache ?key")
    case (Some cached)
    with r have "r = Inr cached" "cache' = cache"
      by (auto simp: findPath_def Let_def)
    with Some show ?thesis
      by (auto simp: findPath_def Let_def)
  next
    case None
    from r None consider
      (stored) v where "r = Inr v" "v \<noteq> Str ''''" "cache' = cache(?key := Some v)"
      | (unchanged) "cache' = cache" "r = Inr (Str '''') \<or> (\<exists>e. r = Inl e)"
      by (auto simp: findPath_def Let_def split: if_splits sum.splits prod.splits
          simp del: findPath_loop.simps)
    then show ?thesis
    proof cases
      case stored
      with None show ?thesis
        by (auto simp: findPath_def Let_def)
    next
      case unchanged
      with r show ?thesis by auto
    qed
  qed
qed

theorem findPath_cache_witness:
  "fst (findPath fs_added Map.empty ''x.js'' [''/a'', ''/b''] False None None)
     = Inr (Str ''/b/x.js'')
   \<and> fst (findPath fs_empty
            (fst (snd (findPath fs_added Map.empty ''x.js'' [''/a'', ''/b''] False None None)))
            ''x.js'' [''/a'', ''/b''] False None None)
     = Inr (Str ''/b/x.js'')"
proof -
  let ?first = "findPath fs_added Map.empty ''x.js'' [''/a'', ''/b''] False None None"
  have call: "?first = (fst ?first, fst (snd ?first), snd (snd ?first))"
    by simp
  have ev: "fst ?first = Inr (Str ''/b/x.js'')"
    by code_simp
  from findPath_cache [OF call] ev
  have "findPath fs_empty (fst (snd ?first)) ''x.js'' [''/a'', ''/b''] False None None
          = (fst ?first, fst (snd ?first), [])"
    by simp
  with ev show ?thesis by simp
qed

text \<open>
  The claim as it is written fails for a result that is "not found": the first call
  returns the empty string and stores nothing under the cache key, and the second call
  probes the filesystem again, as the file written in between shows.
\<close>

theorem findPath_not_found_recomputed_counterexample:
  "fst (findPath fs_empty Map.empty ''x.js'' [''/a'', ''/b''] False None None) = Inr (Str '''')
   \<and> fst (snd (findPath fs_empty Map.empty ''x.js'' [''/a'', ''/b''] False None None))
        (cacheKey_of ''x.js'' [''/a'', ''/b''] False None None) = None
   \<and> fst (findPath fs_added
            (fst (snd (findPath fs_empty Map.empty ''x.js'' [''/a'', ''/b''] False None None)))
            ''x.js'' [''/a'', ''/b''] False None None)
     = Inr (Str ''/b/x.js'')"
  by code_simp

text \<open>
  Claim C9. The cache key is not injective: the one search path \<^verbatim>\<open>a,b\<close> and the two
  search paths \<^verbatim>\<open>a\<close> and \<^verbatim>\<open>b\<close> have the same key, whatever the other arguments are,
  and so have \<^verbatim>\<open>/a,/b\<close> and the two paths \<^verbatim>\<open>/a\<close> and \<^verbatim>\<open>/b\<close>.
  So \<^verbatim>\<open>findPath\<close> can return a result that was computed for other arguments: asked
  for \<^verbatim>\<open>x.js\<close> in the directory \<^verbatim>\<open>/a,/b\<close>, which does not exist, it finds nothing on
  an empty cache, and returns \<^verbatim>\<open>/b/x.js\<close> on the cache that the call with the two
  search paths left.
\<close>

theorem cacheKey_not_injective:
  "cacheKey_of request [''a,b''] isMain fieldNames exts
     = cacheKey_of request [''a'', ''b''] isMain fieldNames exts
   \<and> [''a,b''] \<noteq> [''a'', ''b'']
   \<and> cacheKey_of request [''/a,/b''] isMain fieldNames exts
     = cacheKey_of request [''/a'', ''/b''] isMain fieldNames exts
   \<and> [''/a,/b''] \<noteq> [''/a'', ''/b'']
   \<and> fst (findPath fs_added Map.empty ''x.js'' [''/a'', ''/b''] False None None)
       = Inr (Str ''/b/x.js'')
   \<and> fst (findPath fs_added Map.empty ''x.js'' [''/a,/b''] False None None) = Inr (Str '''')
   \<and> fst (findPath fs_added
            (fst (snd (findPath fs_added Map.empty ''x.js'' [''/a'', ''/b''] False None None)))
            ''x.js'' [''/a,/b''] False None None)
       = Inr (Str ''/b/x.js'')"
proof -
  have "cacheKey_of request [''a,b''] isMain fieldNames exts
     = cacheKey_of request [''a'', ''b''] isMain fieldNames exts"
    by (simp add: cacheKey_of_def)
  moreover have "cacheKey_of request [''/a,/b''] isMain fieldNames exts
     = cacheKey_of request [''/a'', ''/b''] isMain fieldNames exts"
    by (simp add: cacheKey_of_def)
  moreover have "fst (findPath fs_added Map.empty ''x.js'' [''/a'', ''/b''] False None None)
       = Inr (Str ''/b/x.js'')"
    by code_simp
  moreover have "fst (findPath fs_added Map.empty ''x.js'' [''/a,/b''] False None None)
       = Inr (Str '''')"
    by code_simp
  moreover have "fst (findPath fs_added
            (fst (snd (findPath fs_added Map.empty ''x.js'' [''/a'', ''/b''] False None None)))
            ''x.js'' [''/a,/b''] False None None)
       = Inr (Str ''/b/x.js'')"
    by code_simp
  ultimately show ?thesis by simp
qed

end
